theory Spec2Isabelle
  imports Main
begin

section \<open>Go values shared by the two packages\<close>

text \<open>
  A Go \<open>error\<close> is an interface value; \<open>nil\<close> is \<open>None\<close> of \<open>error option\<close>. The
  constructors are the concrete error types that the two packages build or inspect:
  \<^item> \<open>errorString msg\<close>: an opaque error made by \<open>errors.New(msg)\<close>;
  \<^item> \<open>ErrNotExist\<close>, \<open>ErrNotFound\<close>: the sentinels \<open>os.ErrNotExist\<close> and
    \<open>errdefs.ErrNotFound\<close> (compared by identity in Go, hence constructors of their own);
  \<^item> \<open>Errno n\<close>: a \<open>syscall.Errno\<close>;
  \<^item> \<open>PathError op path err\<close>, \<open>LinkError op old new err\<close>, \<open>SyscallError call err\<close>:
    the three wrapper types of package \<open>os\<close>;
  \<^item> \<open>Errorf format arg\<close>: \<open>fmt.Errorf(format, arg)\<close> whose format has no \<open>%w\<close>;
  \<^item> \<open>wrapError format arg err\<close>: \<open>fmt.Errorf(format, arg, err)\<close> whose format ends in \<open>%w\<close>;
  \<^item> \<open>expectedError err\<close>, \<open>unexpectedError err\<close>: the two classifying wrappers of
    package \<open>retry\<close>.
  The format string is kept verbatim next to its arguments, so no model of \<open>%q\<close>
  quoting is needed.
\<close>

datatype error =
    errorString string
  | ErrNotExist
  | ErrNotFound
  | Errno nat
  | PathError string string error
  | LinkError string string string error
  | SyscallError string error
  | Errorf string string
  | wrapError string string error
  | expectedError error
  | unexpectedError error

text \<open>A run-time panic of an index expression: the index and the length of the array.\<close>

datatype panic = IndexOutOfRange int nat


section \<open>Package runtime: \<open>sequencer.go\<close>\<close>

text \<open>
  \<open>type Sequence int\<close>: every value of Go's \<open>int\<close> is a value of the type, not only
  the eleven constants. No arithmetic is done on a Sequence, so the machine width plays
  no part and the type is modelled by the integers.
\<close>

type_synonym Sequence = int

text \<open>The constant block, numbered by \<open>iota\<close>.\<close>

definition SequenceApplyConfiguration :: Sequence where "SequenceApplyConfiguration = 0"
definition SequenceBoot :: Sequence where "SequenceBoot = 1"
definition SequenceBootstrap :: Sequence where "SequenceBootstrap = 2"
definition SequenceInitialize :: Sequence where "SequenceInitialize = 3"
definition SequenceInstall :: Sequence where "SequenceInstall = 4"
definition SequenceShutdown :: Sequence where "SequenceShutdown = 5"
definition SequenceUpgrade :: Sequence where "SequenceUpgrade = 6"
definition SequenceReset :: Sequence where "SequenceReset = 7"
definition SequenceReboot :: Sequence where "SequenceReboot = 8"
definition SequenceRecover :: Sequence where "SequenceRecover = 9"
definition SequenceNoop :: Sequence where "SequenceNoop = 10"

text \<open>The named constants, in declaration order.\<close>

definition Sequences :: "Sequence list" where
  "Sequences =
     [SequenceApplyConfiguration, SequenceBoot, SequenceBootstrap, SequenceInitialize,
      SequenceInstall, SequenceShutdown, SequenceUpgrade, SequenceReset, SequenceReboot,
      SequenceRecover, SequenceNoop]"

text \<open>The string constants.\<close>

definition applyConfiguration :: string where "applyConfiguration = ''applyConfiguration''"
definition boot :: string where "boot = ''boot''"
definition bootstrap :: string where "bootstrap = ''bootstrap''"
definition initialize :: string where "initialize = ''initialize''"
definition install :: string where "install = ''install''"
definition shutdown :: string where "shutdown = ''shutdown''"
definition upgrade :: string where "upgrade = ''upgrade''"
definition reset :: string where "reset = ''reset''"
definition reboot :: string where "reboot = ''reboot''"
definition recover :: string where "recover = ''recover''"
definition noop :: string where "noop = ''noop''"

text \<open>The array literal of \<open>Sequence.String\<close>.\<close>

definition Sequence_names :: "string list" where
  "Sequence_names =
     [applyConfiguration, boot, bootstrap, initialize, install, shutdown, upgrade, reset,
      reboot, recover, noop]"

text \<open>
  \<open>func (s Sequence) String() string\<close>: the array literal indexed by \<open>s\<close>. Go checks the
  index at run time and panics when it is negative or not below the length.
\<close>

definition Sequence_String :: "Sequence \<Rightarrow> panic + string" where
  "Sequence_String s =
     (if 0 \<le> s \<and> s < int (length Sequence_names)
      then Inr (Sequence_names ! nat s)
      else Inl (IndexOutOfRange s (length Sequence_names)))"

text \<open>
  \<open>func ParseSequence(s string) (seq Sequence, err error)\<close>: the named result \<open>seq\<close>
  starts at the zero value of \<open>Sequence\<close>, each \<open>case\<close> assigns it, and the \<open>default\<close>
  branch returns it untouched together with the error.
\<close>

definition ParseSequence :: "string \<Rightarrow> Sequence \<times> error option" where
  "ParseSequence s =
     (let seq = (0 :: Sequence) in
      if s = applyConfiguration then (SequenceApplyConfiguration, None)
      else if s = boot then (SequenceBoot, None)
      else if s = bootstrap then (SequenceBootstrap, None)
      else if s = initialize then (SequenceInitialize, None)
      else if s = install then (SequenceInstall, None)
      else if s = shutdown then (SequenceShutdown, None)
      else if s = upgrade then (SequenceUpgrade, None)
      else if s = reset then (SequenceReset, None)
      else if s = reboot then (SequenceReboot, None)
      else if s = recover then (SequenceRecover, None)
      else if s = noop then (SequenceNoop, None)
      else (seq, Some (Errorf ''unknown runtime sequence: %q'' s)))"

text \<open>
  What the specification calls lowercase, on ASCII: every character of the string is one
  of the letters \<open>a\<close> to \<open>z\<close>. \<open>isUpper\<close> recognises the letters \<open>A\<close> to \<open>Z\<close>.
\<close>

definition isLower :: "char \<Rightarrow> bool" where
  "isLower c = (97 \<le> (of_char c :: nat) \<and> (of_char c :: nat) \<le> 122)"

definition isUpper :: "char \<Rightarrow> bool" where
  "isUpper c = (65 \<le> (of_char c :: nat) \<and> (of_char c :: nat) \<le> 90)"

definition lowercase :: "string \<Rightarrow> bool" where
  "lowercase str = list_all isLower str"


section \<open>Package image\<close>

subsection \<open>Library functions the package calls\<close>

text \<open>
  Package \<open>os\<close> of the Go standard library. \<open>os.IsNotExist\<close> predates \<open>errors.Is\<close>:
  it strips one \<open>*PathError\<close>, \<open>*LinkError\<close> or \<open>*SyscallError\<close> and nothing else
  (\<open>underlyingError\<close>), then accepts \<open>ErrNotExist\<close> itself and the errno \<open>ENOENT\<close>.
\<close>

definition ENOENT :: nat where "ENOENT = 2"

fun underlyingError :: "error \<Rightarrow> error" where
  "underlyingError (PathError op path err) = err"
| "underlyingError (LinkError op old new err) = err"
| "underlyingError (SyscallError call err) = err"
| "underlyingError err = err"

definition os_IsNotExist :: "error \<Rightarrow> bool" where
  "os_IsNotExist err =
     (let e = underlyingError err in e = ErrNotExist \<or> e = Errno ENOENT)"

text \<open>
  \<open>errors.Is(err, target)\<close> of the standard library walks the \<open>Unwrap\<close> chain of
  \<open>err\<close>. At each link it answers true when the link equals the target or when the
  link has an \<open>Is\<close> method that accepts the target; otherwise it unwraps and goes on,
  and answers false at the end of the chain.
  \<^item> \<open>Unwrap\<close>: the \<open>%w\<close> wrapper of \<open>fmt.Errorf\<close>, the three wrappers of package \<open>os\<close>
    and the two wrappers of package \<open>retry\<close> unwrap to the error they hold; every other
    error ends the chain.
  \<^item> \<open>Is\<close> method: of the errors above only \<open>syscall.Errno\<close> has one. Among the
    sentinels of this model it accepts \<open>ErrNotExist\<close>, for the errno \<open>ENOENT\<close>.
\<close>

fun errors_Is :: "error \<Rightarrow> error \<Rightarrow> bool" where
  "errors_Is (wrapError format arg err) target =
     (wrapError format arg err = target \<or> errors_Is err target)"
| "errors_Is (PathError op path err) target =
     (PathError op path err = target \<or> errors_Is err target)"
| "errors_Is (LinkError op old new err) target =
     (LinkError op old new err = target \<or> errors_Is err target)"
| "errors_Is (SyscallError call err) target =
     (SyscallError call err = target \<or> errors_Is err target)"
| "errors_Is (expectedError err) target =
     (expectedError err = target \<or> errors_Is err target)"
| "errors_Is (unexpectedError err) target =
     (unexpectedError err = target \<or> errors_Is err target)"
| "errors_Is (Errno n) target =
     (Errno n = target \<or> (target = ErrNotExist \<and> n = ENOENT))"
| "errors_Is err target = (err = target)"

text \<open>
  Package \<open>errdefs\<close> of containerd: \<open>errdefs.IsNotFound(err)\<close> is
  \<open>errors.Is(err, ErrNotFound)\<close>.
\<close>

definition errdefs_IsNotFound :: "error \<Rightarrow> bool" where
  "errdefs_IsNotFound err = errors_Is err ErrNotFound"

text \<open>
  Package \<open>retry\<close>: \<open>retry.ExpectedError\<close> and \<open>retry.UnexpectedError\<close> keep \<open>nil\<close> and
  wrap any other error in the type after which the retry loop tells an error to retry
  from one that ends it. \<open>Import\<close> returns \<open>retry.ExpectedError(err)\<close> on its success
  path, where \<open>err\<close> is \<open>nil\<close>.
\<close>

definition ExpectedError :: "error option \<Rightarrow> error option" where
  "ExpectedError err = (case err of None \<Rightarrow> None | Some e \<Rightarrow> Some (expectedError e))"

definition UnexpectedError :: "error option \<Rightarrow> error option" where
  "UnexpectedError err = (case err of None \<Rightarrow> None | Some e \<Rightarrow> Some (unexpectedError e))"

text \<open>
  \<open>time.Duration\<close> counts nanoseconds. The options of a retryer are set by functional
  options applied in order to the defaults of the library (a unit of one second, no
  jitter, no logging).
\<close>

type_synonym Duration = int

definition Second :: Duration where "Second = 1000000000"
definition Minute :: Duration where "Minute = 60 * Second"

record Options =
  Units :: Duration
  Jitter :: Duration
  LogErrors :: bool

datatype RetryOption = WithUnits Duration | WithJitter Duration | WithErrorLogging bool

fun apply_option :: "Options \<Rightarrow> RetryOption \<Rightarrow> Options" where
  "apply_option opts (WithUnits d) = opts\<lparr>Units := d\<rparr>"
| "apply_option opts (WithJitter d) = opts\<lparr>Jitter := d\<rparr>"
| "apply_option opts (WithErrorLogging b) = opts\<lparr>LogErrors := b\<rparr>"

definition NewDefaultOptions :: "RetryOption list \<Rightarrow> Options" where
  "NewDefaultOptions setters =
     foldl apply_option \<lparr>Units = Second, Jitter = 0, LogErrors = False\<rparr> setters"

fun is_WithJitter :: "RetryOption \<Rightarrow> bool" where
  "is_WithJitter (WithJitter d) = True"
| "is_WithJitter _ = False"

datatype backoff = Constant | Exponential | Linear

record retryer =
  strategy :: backoff
  duration :: Duration
  options :: Options

definition retry_Exponential :: "Duration \<Rightarrow> RetryOption list \<Rightarrow> retryer" where
  "retry_Exponential d setters =
     \<lparr>strategy = Exponential, duration = d, options = NewDefaultOptions setters\<rparr>"

subsection \<open>The retry settings\<close>

definition PullTimeout :: Duration where "PullTimeout = 20 * Minute"
definition PullRetryInterval :: Duration where "PullRetryInterval = 5 * Second"

definition ImportTimeout :: Duration where "ImportTimeout = 5 * Minute"
definition ImportRetryInterval :: Duration where "ImportRetryInterval = 5 * Second"
definition ImportRetryJitter :: Duration where "ImportRetryJitter = Second"

subsection \<open>\<open>Pull\<close>\<close>

text \<open>The options \<open>Pull\<close> passes to \<open>retry.Exponential\<close>, and the retryer they make.\<close>

definition Pull_setters :: "RetryOption list" where
  "Pull_setters = [WithUnits PullRetryInterval, WithErrorLogging True]"

definition Pull_retryer :: retryer where
  "Pull_retryer = retry_Exponential PullTimeout Pull_setters"

text \<open>
  The function \<open>Pull\<close> hands to \<open>Retry\<close>, as a function of what \<open>client.Pull\<close> returned
  in this attempt (the image and the error). The predicate of containerd is a
  parameter, instantiated with \<open>errdefs_IsNotFound\<close> below; the function applies it to
  the error after wrapping it with \<open>%w\<close>.
\<close>

definition Pull_attempt :: "(error \<Rightarrow> bool) \<Rightarrow> string \<Rightarrow> 'img \<times> error option \<Rightarrow> error option" where
  "Pull_attempt IsNotFound ref r =
     (case snd r of
        Some e \<Rightarrow>
          (let err = wrapError ''failed to pull image %q: %w'' ref e in
           if IsNotFound err then UnexpectedError (Some err)
           else ExpectedError (Some err))
      | None \<Rightarrow> None)"

subsection \<open>\<open>Import\<close>\<close>

definition Import_setters :: "RetryOption list" where
  "Import_setters =
     [WithUnits ImportRetryInterval, WithJitter ImportRetryJitter, WithErrorLogging True]"

definition Import_retryer :: retryer where
  "Import_retryer = retry_Exponential ImportTimeout Import_setters"

text \<open>
  The function \<open>Import\<close> hands to \<open>Retry\<close>, as a function of what \<open>importer.Import\<close>
  returned in this attempt. The result is wrapped by \<open>retry.ExpectedError\<close> first, and
  the wrapped value is what \<open>os.IsNotExist\<close> is asked about. The predicate is a
  parameter, instantiated with \<open>os_IsNotExist\<close> below.
\<close>

definition Import_attempt :: "(error \<Rightarrow> bool) \<Rightarrow> error option \<Rightarrow> error option" where
  "Import_attempt IsNotExist r =
     (let err = ExpectedError r in
      case err of
        Some e \<Rightarrow> if IsNotExist e then UnexpectedError err else ExpectedError err
      | None \<Rightarrow> ExpectedError err)"


section \<open>Properties of \<open>Sequence\<close>\<close>

lemmas Sequence_consts =
  SequenceApplyConfiguration_def SequenceBoot_def SequenceBootstrap_def
  SequenceInitialize_def SequenceInstall_def SequenceShutdown_def SequenceUpgrade_def
  SequenceReset_def SequenceReboot_def SequenceRecover_def SequenceNoop_def

lemmas name_consts =
  applyConfiguration_def boot_def bootstrap_def initialize_def install_def shutdown_def
  upgrade_def reset_def reboot_def recover_def noop_def

lemma Sequence_names_length: "length Sequence_names = 11"
  by (simp add: Sequence_names_def)

lemma Sequence_range_cases:
  assumes "0 \<le> s" and "s \<le> (10 :: int)"
  shows "s = 0 \<or> s = 1 \<or> s = 2 \<or> s = 3 \<or> s = 4 \<or> s = 5 \<or> s = 6 \<or> s = 7 \<or> s = 8
    \<or> s = 9 \<or> s = 10"
  using assms by arith

lemma ParseSequence_nil_iff:
  "snd (ParseSequence s) = None \<longleftrightarrow> s \<in> set Sequence_names"
  by (auto simp add: ParseSequence_def Sequence_names_def)

lemma ParseSequence_unknown_eq:
  "s \<notin> set Sequence_names \<Longrightarrow>
     ParseSequence s = (0, Some (Errorf ''unknown runtime sequence: %q'' s))"
  by (simp add: ParseSequence_def Sequence_names_def)

lemma Sequences_set: "set Sequences = {0..10}"
proof
  show "set Sequences \<subseteq> {0..10}"
    by (simp add: Sequences_def Sequence_consts)
  show "{0..10} \<subseteq> set Sequences"
  proof
    fix s :: int assume "s \<in> {0..10}"
    then have "s = 0 \<or> s = 1 \<or> s = 2 \<or> s = 3 \<or> s = 4 \<or> s = 5 \<or> s = 6 \<or> s = 7 \<or> s = 8
      \<or> s = 9 \<or> s = 10"
      by (intro Sequence_range_cases) simp_all
    then show "s \<in> set Sequences"
      by (elim disjE) (simp_all add: Sequences_def Sequence_consts)
  qed
qed

lemma ParseSequence_fst_range: "fst (ParseSequence s) \<in> set Sequences"
  by (simp add: ParseSequence_def Sequences_def Sequence_consts)

subsection \<open>Round trip\<close>

text \<open>
  C1. For every Sequence value \<open>s\<close> from \<open>SequenceApplyConfiguration\<close> through
  \<open>SequenceNoop\<close>, \<open>s.String()\<close> returns a string, and \<open>ParseSequence\<close> applied to that
  string returns exactly \<open>s\<close> with a nil error.
\<close>

theorem ParseSequence_String_roundtrip:
  "SequenceApplyConfiguration \<le> s \<Longrightarrow> s \<le> SequenceNoop \<Longrightarrow>
     \<exists>str. Sequence_String s = Inr str \<and> ParseSequence str = (s, None)"
proof -
  assume "SequenceApplyConfiguration \<le> s" and "s \<le> SequenceNoop"
  then have "s = 0 \<or> s = 1 \<or> s = 2 \<or> s = 3 \<or> s = 4 \<or> s = 5 \<or> s = 6 \<or> s = 7 \<or> s = 8
    \<or> s = 9 \<or> s = 10"
    by (intro Sequence_range_cases) (simp_all add: Sequence_consts)
  then show ?thesis
    by (elim disjE)
      (simp_all add: Sequence_String_def Sequence_names_def ParseSequence_def
        Sequence_consts name_consts)
qed

theorem ParseSequence_String_roundtrip_witness:
  "SequenceApplyConfiguration \<le> SequenceBoot \<and> SequenceBoot \<le> SequenceNoop \<and>
   Sequence_String SequenceBoot = Inr ''boot'' \<and> ParseSequence ''boot'' = (SequenceBoot, None)"
  using ParseSequence_String_roundtrip [of SequenceBoot]
  by (simp add: Sequence_String_def Sequence_names_def Sequence_consts name_consts)

subsection \<open>Unknown strings\<close>

text \<open>
  C2. For every string that is not one of the eleven identifiers of the table,
  \<open>ParseSequence\<close> returns the non-nil error
  \<open>fmt.Errorf("unknown runtime sequence: %q", s)\<close>. The comparison is exact: no case
  folding, no trimming, no alias; \<open>"Boot"\<close>, \<open>" boot"\<close> and \<open>"frobnicate"\<close> all fail.
\<close>

theorem ParseSequence_unknown:
  "(s \<notin> set Sequence_names \<longrightarrow>
      snd (ParseSequence s) = Some (Errorf ''unknown runtime sequence: %q'' s))
   \<and> snd (ParseSequence ''Boot'') = Some (Errorf ''unknown runtime sequence: %q'' ''Boot'')
   \<and> snd (ParseSequence '' boot'') = Some (Errorf ''unknown runtime sequence: %q'' '' boot'')
   \<and> snd (ParseSequence ''frobnicate'')
       = Some (Errorf ''unknown runtime sequence: %q'' ''frobnicate'')"
proof -
  have general: "\<And>t. t \<notin> set Sequence_names \<Longrightarrow>
      snd (ParseSequence t) = Some (Errorf ''unknown runtime sequence: %q'' t)"
    by (simp add: ParseSequence_unknown_eq)
  have "''Boot'' \<notin> set Sequence_names" "'' boot'' \<notin> set Sequence_names"
    "''frobnicate'' \<notin> set Sequence_names"
    by (simp_all add: Sequence_names_def name_consts)
  then show ?thesis using general by blast
qed

theorem ParseSequence_unknown_witness:
  "''BOOT'' \<notin> set Sequence_names \<and>
   snd (ParseSequence ''BOOT'') = Some (Errorf ''unknown runtime sequence: %q'' ''BOOT'')"
proof -
  have h: "''BOOT'' \<notin> set Sequence_names"
    by (simp add: Sequence_names_def name_consts)
  with ParseSequence_unknown [of "''BOOT''"] show ?thesis by blast
qed

subsection \<open>The string table\<close>

text \<open>
  C3, as stated, fails: the string form of \<open>SequenceApplyConfiguration\<close> is
  \<open>"applyConfiguration"\<close>, whose sixth character is the capital letter \<open>C\<close>, so it is
  not all lowercase.
\<close>

theorem Sequence_String_applyConfiguration_not_lowercase:
  "Sequence_String SequenceApplyConfiguration = Inr ''applyConfiguration'' \<and>
   isUpper (''applyConfiguration'' ! 5) \<and> \<not> lowercase ''applyConfiguration''"
  by (simp add: Sequence_String_def Sequence_names_def Sequence_consts name_consts
      isUpper_def isLower_def lowercase_def)

text \<open>
  C3, amended. For every Sequence value from \<open>SequenceApplyConfiguration\<close> through
  \<open>SequenceNoop\<close>, \<open>String()\<close> returns the entry of the eleven-entry table at the
  position of the value. The ten entries of \<open>SequenceBoot\<close> through \<open>SequenceNoop\<close>
  are all lowercase; the entry of \<open>SequenceApplyConfiguration\<close> is
  \<open>"applyConfiguration"\<close>, which is made of letters and starts with a lowercase one.
\<close>

theorem Sequence_String_table:
  "SequenceApplyConfiguration \<le> s \<Longrightarrow> s \<le> SequenceNoop \<Longrightarrow>
     Sequence_String s = Inr (Sequence_names ! nat s)
     \<and> (s \<noteq> SequenceApplyConfiguration \<longrightarrow> lowercase (Sequence_names ! nat s))
     \<and> (s = SequenceApplyConfiguration \<longrightarrow>
          Sequence_names ! nat s = ''applyConfiguration''
          \<and> list_all (\<lambda>c. isLower c \<or> isUpper c) (Sequence_names ! nat s)
          \<and> isLower (hd (Sequence_names ! nat s)))"
proof -
  assume "SequenceApplyConfiguration \<le> s" and "s \<le> SequenceNoop"
  then have "s = 0 \<or> s = 1 \<or> s = 2 \<or> s = 3 \<or> s = 4 \<or> s = 5 \<or> s = 6 \<or> s = 7 \<or> s = 8
    \<or> s = 9 \<or> s = 10"
    by (intro Sequence_range_cases) (simp_all add: Sequence_consts)
  then show ?thesis
    by (elim disjE)
      (simp_all add: Sequence_String_def Sequence_names_def Sequence_consts name_consts
        isUpper_def isLower_def lowercase_def)
qed

theorem Sequence_String_table_witness:
  "SequenceApplyConfiguration \<le> SequenceUpgrade \<and> SequenceUpgrade \<le> SequenceNoop
   \<and> SequenceUpgrade \<noteq> SequenceApplyConfiguration
   \<and> Sequence_String SequenceUpgrade = Inr ''upgrade'' \<and> lowercase ''upgrade''
   \<and> SequenceApplyConfiguration \<le> SequenceApplyConfiguration
   \<and> Sequence_String SequenceApplyConfiguration = Inr ''applyConfiguration''"
  using Sequence_String_table [of SequenceUpgrade]
    Sequence_String_table [of SequenceApplyConfiguration]
  by (simp add: Sequence_names_def Sequence_consts name_consts)

subsection \<open>The value returned with the error\<close>

text \<open>
  C4, as stated, fails: for \<open>"frobnicate"\<close>, which is not in the table, \<open>ParseSequence\<close>
  returns an error together with the zero value of \<open>Sequence\<close>, and that value is the
  constant \<open>SequenceApplyConfiguration\<close>, a member of the enumeration.
\<close>

theorem ParseSequence_failure_value_is_member:
  "''frobnicate'' \<notin> set Sequence_names
   \<and> snd (ParseSequence ''frobnicate'') \<noteq> None
   \<and> fst (ParseSequence ''frobnicate'') = SequenceApplyConfiguration
   \<and> SequenceApplyConfiguration \<in> set Sequences"
  by (simp add: ParseSequence_def Sequence_names_def Sequences_def Sequence_consts name_consts)

text \<open>
  C4, amended. For any string not in the fixed set of eleven, \<open>ParseSequence\<close> returns a
  non-nil error together with the zero Sequence value, which equals
  \<open>SequenceApplyConfiguration\<close>; for a string of the set the error is nil. A failed
  parse is therefore told from a successful one by the error alone.
\<close>

theorem ParseSequence_failure_value:
  "(s \<notin> set Sequence_names \<longrightarrow>
      snd (ParseSequence s) \<noteq> None \<and> fst (ParseSequence s) = 0
      \<and> fst (ParseSequence s) = SequenceApplyConfiguration)
   \<and> (s \<in> set Sequence_names \<longrightarrow> snd (ParseSequence s) = None)"
  by (simp add: ParseSequence_unknown_eq ParseSequence_nil_iff SequenceApplyConfiguration_def)

theorem ParseSequence_failure_value_witness:
  "''frobnicate'' \<notin> set Sequence_names
   \<and> ParseSequence ''frobnicate''
       = (SequenceApplyConfiguration, Some (Errorf ''unknown runtime sequence: %q'' ''frobnicate''))
   \<and> ''noop'' \<in> set Sequence_names \<and> snd (ParseSequence ''noop'') = None"
proof -
  have a: "''frobnicate'' \<notin> set Sequence_names" and b: "''noop'' \<in> set Sequence_names"
    by (simp_all add: Sequence_names_def name_consts)
  have c: "snd (ParseSequence ''frobnicate'')
      = Some (Errorf ''unknown runtime sequence: %q'' ''frobnicate'')"
    using a by (simp add: ParseSequence_unknown_eq)
  from a b c ParseSequence_failure_value [of "''frobnicate''"]
    ParseSequence_failure_value [of "''noop''"]
  show ?thesis by (simp add: prod_eq_iff)
qed

subsection \<open>The enumeration is closed\<close>

text \<open>
  C9. A value that \<open>ParseSequence\<close> returns with a nil error is one of the eleven named
  constants, and every named constant lies between 0 and 10: neither way of making a
  Sequence produces a value out of range.
\<close>

theorem Sequence_closed:
  "(snd (ParseSequence s) = None \<longrightarrow>
      fst (ParseSequence s) \<in> set Sequences
      \<and> 0 \<le> fst (ParseSequence s) \<and> fst (ParseSequence s) \<le> 10)
   \<and> (\<forall>c \<in> set Sequences. 0 \<le> c \<and> c \<le> 10)
   \<and> length Sequences = 11"
proof -
  have "fst (ParseSequence s) \<in> {0..10}"
    using ParseSequence_fst_range [of s] by (simp only: Sequences_set)
  moreover have "\<forall>c \<in> set Sequences. 0 \<le> c \<and> c \<le> 10"
    by (simp only: Sequences_set) simp
  moreover have "length Sequences = 11"
    by (simp add: Sequences_def)
  ultimately show ?thesis
    using ParseSequence_fst_range [of s] by simp
qed

theorem Sequence_closed_witness:
  "snd (ParseSequence ''recover'') = None
   \<and> fst (ParseSequence ''recover'') = SequenceRecover
   \<and> SequenceRecover \<in> set Sequences \<and> 0 \<le> SequenceRecover \<and> SequenceRecover \<le> 10"
proof -
  have a: "ParseSequence ''recover'' = (SequenceRecover, None)"
    by (simp add: ParseSequence_def name_consts)
  from a Sequence_closed [of "''recover''"] show ?thesis by simp
qed

subsection \<open>When \<open>String\<close> panics\<close>

text \<open>
  C10. \<open>Sequence.String()\<close> returns a string exactly when the integer is between 0 and
  10 inclusive; for any other value the index expression panics with an index out of
  range for the array of length 11, and no fallback string is returned.
\<close>

theorem Sequence_String_safe_iff:
  "((\<exists>str. Sequence_String s = Inr str) \<longleftrightarrow> 0 \<le> s \<and> s \<le> 10)
   \<and> (\<not> (0 \<le> s \<and> s \<le> 10) \<longrightarrow> Sequence_String s = Inl (IndexOutOfRange s 11))"
  by (auto simp add: Sequence_String_def Sequence_names_length)

theorem Sequence_String_safe_iff_witness:
  "\<not> (0 \<le> (11 :: int) \<and> (11 :: int) \<le> 10)
   \<and> Sequence_String 11 = Inl (IndexOutOfRange 11 11)
   \<and> \<not> (0 \<le> (- 1 :: int) \<and> (- 1 :: int) \<le> 10)
   \<and> Sequence_String (- 1) = Inl (IndexOutOfRange (- 1) 11)
   \<and> (\<exists>str. Sequence_String SequenceNoop = Inr str)"
  using Sequence_String_safe_iff [of 11] Sequence_String_safe_iff [of "- 1"]
    Sequence_String_safe_iff [of SequenceNoop]
  by (simp add: SequenceNoop_def)


section \<open>Properties of package image\<close>

subsection \<open>Classification of a failed pull\<close>

text \<open>
  The attempt asks its predicate about the error it has wrapped with \<open>%w\<close>. When the
  predicate looks through that wrapper, the class is decided by the error
  \<open>client.Pull\<close> returned.
\<close>

lemma Pull_attempt_by_cause:
  assumes "\<And>format arg err. IsNotFound (wrapError format arg err) = IsNotFound err"
  shows "Pull_attempt IsNotFound ref (img, Some e) =
    Some ((if IsNotFound e then unexpectedError else expectedError)
      (wrapError ''failed to pull image %q: %w'' ref e))"
  using assms by (simp add: Pull_attempt_def ExpectedError_def UnexpectedError_def)

lemma errors_Is_wrapError_ErrNotFound:
  "errors_Is (wrapError format arg err) ErrNotFound = errors_Is err ErrNotFound"
  by simp

lemma errdefs_IsNotFound_wrapError:
  "errdefs_IsNotFound (wrapError format arg err) = errdefs_IsNotFound err"
  by (simp only: errdefs_IsNotFound_def errors_Is_wrapError_ErrNotFound)

lemma errdefs_IsNotFound_retry_wrappers:
  "errdefs_IsNotFound (expectedError err) = errdefs_IsNotFound err"
  "errdefs_IsNotFound (unexpectedError err) = errdefs_IsNotFound err"
  by (simp_all add: errdefs_IsNotFound_def)

text \<open>
  C6. A failed pull attempt whose error is a not-found error, that is, an error
  \<open>client.Pull\<close> returned of which \<open>errdefs.IsNotFound\<close> holds, is returned to the
  retry loop as unexpected, the class that ends the loop; every other pull error is
  returned as expected, the class that is retried. In both cases the error is carried
  inside the wrapper \<open>failed to pull image\<close>. A successful pull returns nil.
\<close>

theorem Pull_attempt_classification:
  "(errdefs_IsNotFound e \<longrightarrow>
      Pull_attempt errdefs_IsNotFound ref (img, Some e)
        = Some (unexpectedError (wrapError ''failed to pull image %q: %w'' ref e)))
   \<and> (\<not> errdefs_IsNotFound e \<longrightarrow>
      Pull_attempt errdefs_IsNotFound ref (img, Some e)
        = Some (expectedError (wrapError ''failed to pull image %q: %w'' ref e)))
   \<and> Pull_attempt errdefs_IsNotFound ref (img, None) = None"
proof -
  have "Pull_attempt errdefs_IsNotFound ref (img, Some e) =
    Some ((if errdefs_IsNotFound e then unexpectedError else expectedError)
      (wrapError ''failed to pull image %q: %w'' ref e))"
    by (rule Pull_attempt_by_cause) (rule errdefs_IsNotFound_wrapError)
  moreover have "Pull_attempt errdefs_IsNotFound ref (img, None) = None"
    by (simp add: Pull_attempt_def)
  ultimately show ?thesis by simp
qed

theorem Pull_attempt_classification_witness:
  "errdefs_IsNotFound ErrNotFound
   \<and> Pull_attempt errdefs_IsNotFound ''ghcr.io/x/y:v1'' ((), Some ErrNotFound)
       = Some (unexpectedError
           (wrapError ''failed to pull image %q: %w'' ''ghcr.io/x/y:v1'' ErrNotFound))
   \<and> \<not> errdefs_IsNotFound (errorString ''connection refused'')
   \<and> Pull_attempt errdefs_IsNotFound ''ghcr.io/x/y:v1''
         ((), Some (errorString ''connection refused''))
       = Some (expectedError
           (wrapError ''failed to pull image %q: %w'' ''ghcr.io/x/y:v1''
              (errorString ''connection refused'')))"
proof -
  have found: "errdefs_IsNotFound ErrNotFound"
    and other: "\<not> errdefs_IsNotFound (errorString ''connection refused'')"
    by (simp_all add: errdefs_IsNotFound_def)
  from found other
    Pull_attempt_classification [of ErrNotFound "''ghcr.io/x/y:v1''" "()"]
    Pull_attempt_classification
      [of "errorString ''connection refused''" "''ghcr.io/x/y:v1''" "()"]
  show ?thesis by simp
qed

subsection \<open>Classification of a failed import\<close>

text \<open>
  The attempt asks \<open>os.IsNotExist\<close> about the value \<open>retry.ExpectedError\<close> has already
  wrapped. \<open>os.IsNotExist\<close> does not look through that wrapper, so the branch returning
  \<open>retry.UnexpectedError\<close> is never taken: every failed import is returned as expected.
\<close>

lemma os_IsNotExist_expectedError: "\<not> os_IsNotExist (expectedError e)"
  by (simp add: os_IsNotExist_def)

lemma Import_attempt_wrapped:
  "\<not> IsNotExist (expectedError e) \<Longrightarrow>
     Import_attempt IsNotExist (Some e) = Some (expectedError (expectedError e))"
  by (simp add: Import_attempt_def ExpectedError_def)

lemma Import_attempt_always_expected:
  "Import_attempt os_IsNotExist (Some e) = Some (expectedError (expectedError e))"
  by (rule Import_attempt_wrapped) (rule os_IsNotExist_expectedError)

lemma Import_attempt_nil: "Import_attempt IsNotExist None = None"
  by (simp add: Import_attempt_def ExpectedError_def)

text \<open>
  C7 at the input where the code departs from it: \<open>importer.Import\<close> fails with
  \<open>&os.PathError{Op: "open", Path: "/usr/images/apid.tar", Err: syscall.ENOENT}\<close>.
  \<open>os.IsNotExist\<close> holds of this error, the claim classifies it as unexpected, and the
  attempt returns it as expected.
\<close>

theorem Import_attempt_not_exist_retried:
  "os_IsNotExist (PathError ''open'' ''/usr/images/apid.tar'' (Errno ENOENT))
   \<and> Import_attempt os_IsNotExist
         (Some (PathError ''open'' ''/usr/images/apid.tar'' (Errno ENOENT)))
       = Some (expectedError (expectedError
           (PathError ''open'' ''/usr/images/apid.tar'' (Errno ENOENT))))"
  by (simp add: Import_attempt_def ExpectedError_def os_IsNotExist_def)

subsection \<open>The retry policies\<close>

text \<open>
  C8, as stated, fails: \<open>Pull\<close> passes no jitter option to \<open>retry.Exponential\<close>, and the
  jitter of its retryer is zero.
\<close>

theorem Pull_not_jittered:
  "\<not> list_ex is_WithJitter Pull_setters \<and> Jitter (options Pull_retryer) = 0"
  by (simp add: Pull_setters_def Pull_retryer_def retry_Exponential_def NewDefaultOptions_def)

text \<open>
  C8, amended. \<open>Pull\<close> and \<open>Import\<close> both run under exponential backoff bounded by a
  total timeout, 20 minutes for \<open>Pull\<close> and 5 minutes for \<open>Import\<close>, with a retry unit
  of 5 seconds each. \<open>Import\<close> is jittered, by one second; \<open>Pull\<close> has no jitter.
\<close>

theorem retry_policies:
  "strategy Pull_retryer = Exponential
   \<and> duration Pull_retryer = 20 * Minute
   \<and> Units (options Pull_retryer) = 5 * Second
   \<and> Jitter (options Pull_retryer) = 0
   \<and> strategy Import_retryer = Exponential
   \<and> duration Import_retryer = 5 * Minute
   \<and> Units (options Import_retryer) = 5 * Second
   \<and> Jitter (options Import_retryer) = Second
   \<and> list_ex is_WithJitter Import_setters
   \<and> \<not> list_ex is_WithJitter Pull_setters
   \<and> Minute = 60 * Second \<and> Second = 1000000000"
  by (simp add: Pull_retryer_def Import_retryer_def Pull_setters_def Import_setters_def
      retry_Exponential_def NewDefaultOptions_def PullTimeout_def PullRetryInterval_def
      ImportTimeout_def ImportRetryInterval_def ImportRetryJitter_def Minute_def Second_def)

end
